theory Spec2Isabelle
  imports Complex_Main
begin

section \<open>Python values and exceptions\<close>

text \<open>
  The two tools of \<^verbatim>\<open>colabfit_mcp.py\<close> are glue around two HTTP calls. The model keeps
  what the code computes itself (the request it builds, the page it cuts out of the
  reply, the file name it derives, the order of its effects) and takes the behaviour of
  the remote service and of the local file system as parameters of a \<open>world\<close>.

  Every exception the code can meet is an instance of Python's \<^verbatim>\<open>Exception\<close>, which
  is what both \<^verbatim>\<open>except Exception as e\<close> clauses catch.
\<close>

datatype exn =
    KeyError string
  | TypeError string
  | ZeroDivisionError
  | RequestException string
  | JSONDecodeError string
  | HTTPError nat
  | OSError string

text \<open>The values that the keyword arguments of \<^verbatim>\<open>dataset_query\<close> can hold.\<close>

datatype pyval =
    PNone
  | PBool bool
  | PInt int
  | PStr string
  | PStrList "string list"

text \<open>
  A decoded JSON reply (\<^verbatim>\<open>response.json()\<close>). The elements of an array and the members
  of an object are of an arbitrary type \<open>'r\<close> (the dataset records); the code never
  looks into them. A number stands for integers and floats alike: the code only ever
  asks for its length, which fails.
\<close>

datatype 'r json =
    JNull
  | JBool bool
  | JNumber int
  | JString string
  | JArray "'r list"
  | JObject "(string \<times> 'r) list"

subsection \<open>Built-ins used by the code\<close>

text \<open>\<^verbatim>\<open>d.pop(key)\<close> on a dictionary kept in insertion order: KeyError when absent.\<close>

definition dict_pop :: "string \<Rightarrow> (string \<times> 'v) list \<Rightarrow> exn + (string \<times> 'v) list" where
  "dict_pop k d =
     (if k \<in> fst ` set d then Inr (filter (\<lambda>kv. fst kv \<noteq> k) d) else Inl (KeyError k))"

text \<open>
  Python's slice \<^verbatim>\<open>xs[start:end]\<close> with integer bounds and no step: a negative bound
  counts from the end, and both bounds are clipped to \<open>0 .. len(xs)\<close>.
\<close>

definition adjust_index :: "int \<Rightarrow> int \<Rightarrow> int" where
  "adjust_index i n =
     (if i < 0 then (if i + n < 0 then 0 else i + n)
      else if i \<ge> n then n else i)"

definition py_slice :: "'a list \<Rightarrow> int \<Rightarrow> int \<Rightarrow> 'a list" where
  "py_slice xs start end' =
     (let n = int (length xs);
          s = adjust_index start n;
          e = adjust_index end' n
      in if s < e then take (nat (e - s)) (drop (nat s) xs) else [])"

text \<open>\<^verbatim>\<open>len(v)\<close> of a decoded JSON value: scalars have no length.\<close>

fun json_len :: "'r json \<Rightarrow> exn + int" where
  "json_len (JArray xs) = Inr (int (length xs))"
| "json_len (JObject kvs) = Inr (int (length kvs))"
| "json_len (JString s) = Inr (int (length s))"
| "json_len JNull = Inl (TypeError ''object of type NoneType has no len()'')"
| "json_len (JBool b) = Inl (TypeError ''object of type bool has no len()'')"
| "json_len (JNumber i) = Inl (TypeError ''object of type int has no len()'')"

text \<open>
  \<^verbatim>\<open>v[start:end]\<close> of a decoded JSON value: arrays and strings are sliced, anything
  else cannot be subscripted with a slice. (For a dictionary the exception is a TypeError
  up to Python 3.11 and a KeyError from 3.12 on; the model takes the former. Either is
  an \<^verbatim>\<open>Exception\<close>.)
\<close>

fun json_slice :: "'r json \<Rightarrow> int \<Rightarrow> int \<Rightarrow> exn + 'r json" where
  "json_slice (JArray xs) s e = Inr (JArray (py_slice xs s e))"
| "json_slice (JString str) s e = Inr (JString (py_slice str s e))"
| "json_slice (JObject kvs) s e = Inl (TypeError ''unhashable type: slice'')"
| "json_slice JNull s e = Inl (TypeError ''NoneType object is not subscriptable'')"
| "json_slice (JBool b) s e = Inl (TypeError ''bool object is not subscriptable'')"
| "json_slice (JNumber i) s e = Inl (TypeError ''int object is not subscriptable'')"

text \<open>Python's \<^verbatim>\<open>a // b\<close> on integers: floor division, ZeroDivisionError for \<open>b = 0\<close>.\<close>

definition py_floordiv :: "int \<Rightarrow> int \<Rightarrow> exn + int" where
  "py_floordiv a b = (if b = 0 then Inl ZeroDivisionError else Inr (a div b))"

section \<open>The world outside: remote service and file system\<close>

type_synonym bytes = "char list"

record request =
  req_method :: string
  req_url :: string
  req_json :: "(string \<times> pyval) list option"
  req_auth :: "string \<times> string"
  req_stream :: bool

text \<open>
  What the code uses of a \<^verbatim>\<open>requests.Response\<close>: the status code, the outcome of
  \<^verbatim>\<open>.json()\<close>, and the chunks that \<^verbatim>\<open>.iter_content()\<close> yields, each of which may
  instead be a failure of the connection in mid-stream.
\<close>

record 'r response =
  status_code :: nat
  json_result :: "exn + 'r json"
  content_stream :: "(exn + bytes) list"

text \<open>
  The world: how the remote service answers a request (or how the call fails), the log of
  the requests sent so far, the files on disk, which paths cannot be opened for writing,
  and which writes fail. \<open>downloads_dir\<close> is the value of
  \<^verbatim>\<open>str(Path.home() / "Downloads")\<close>, the invoking user's download directory.
\<close>

record 'r world =
  remote :: "request \<Rightarrow> exn + 'r response"
  sent :: "request list"
  files :: "string \<rightharpoonup> bytes"
  open_error :: "string \<Rightarrow> exn option"
  write_error :: "string \<Rightarrow> bytes \<Rightarrow> exn option"
  downloads_dir :: string

section \<open>dataset\_query\<close>

text \<open>The nineteen filter arguments, with the types of the signature.\<close>

record query_args =
  name :: "string option"
  authors :: "string option"
  description :: "string option"
  elements :: "string list option"
  exact_elements :: bool
  doi :: "string option"
  min_co :: "int option"
  max_co :: "int option"
  min_elements :: "int option"
  max_elements :: "int option"
  min_atoms :: "int option"
  max_atoms :: "int option"
  property_types :: "string list option"
  license :: "string list option"
  equilibrium :: "bool option"
  given_sort_by :: "string option"
  given_sort_direction :: string
  software :: "string list option"
  methods_text_filter :: "string list option"

definition of_str :: "string option \<Rightarrow> pyval" where
  "of_str v = (case v of None \<Rightarrow> PNone | Some s \<Rightarrow> PStr s)"

definition of_int_opt :: "int option \<Rightarrow> pyval" where
  "of_int_opt v = (case v of None \<Rightarrow> PNone | Some i \<Rightarrow> PInt i)"

definition of_bool_opt :: "bool option \<Rightarrow> pyval" where
  "of_bool_opt v = (case v of None \<Rightarrow> PNone | Some b \<Rightarrow> PBool b)"

definition of_strs :: "string list option \<Rightarrow> pyval" where
  "of_strs v = (case v of None \<Rightarrow> PNone | Some l \<Rightarrow> PStrList l)"

text \<open>
  \<^verbatim>\<open>locals()\<close> on entry of \<^verbatim>\<open>dataset_query\<close>: all twenty-one parameters, in the order
  of the signature.
\<close>

definition locals_dict :: "query_args \<Rightarrow> int \<Rightarrow> int \<Rightarrow> (string \<times> pyval) list" where
  "locals_dict a page page_size =
     [(''name'', of_str (name a)),
      (''authors'', of_str (authors a)),
      (''description'', of_str (description a)),
      (''elements'', of_strs (elements a)),
      (''exact_elements'', PBool (exact_elements a)),
      (''doi'', of_str (doi a)),
      (''min_co'', of_int_opt (min_co a)),
      (''max_co'', of_int_opt (max_co a)),
      (''min_elements'', of_int_opt (min_elements a)),
      (''max_elements'', of_int_opt (max_elements a)),
      (''min_atoms'', of_int_opt (min_atoms a)),
      (''max_atoms'', of_int_opt (max_atoms a)),
      (''property_types'', of_strs (property_types a)),
      (''license'', of_strs (license a)),
      (''equilibrium'', of_bool_opt (equilibrium a)),
      (''given_sort_by'', of_str (given_sort_by a)),
      (''given_sort_direction'', PStr (given_sort_direction a)),
      (''software'', of_strs (software a)),
      (''methods_text_filter'', of_strs (methods_text_filter a)),
      (''page'', PInt page),
      (''page_size'', PInt page_size)]"

text \<open>
  The result dictionary of \<^verbatim>\<open>dataset_query\<close>: six keys when \<^verbatim>\<open>"Success"\<close> is True,
  two keys (\<^verbatim>\<open>"Success"\<close> and \<^verbatim>\<open>"Results"\<close>, the latter holding the exception) otherwise.
\<close>

datatype 'r envelope =
    QuerySuccess (Results: "'r json") (Result_Length: int) (Page: int) (Page_Size: int)
      (Total_Pages: int)
  | QueryFailure exn

fun Success :: "'r envelope \<Rightarrow> bool" where
  "Success (QuerySuccess rs n p ps tp) = True"
| "Success (QueryFailure e) = False"

definition query_request :: "(string \<times> pyval) list \<Rightarrow> request" where
  "query_request args_dict =
     \<lparr>req_method = ''POST'',
      req_url = ''https://materials.colabfit.org/mcp/dataset-query'',
      req_json = Some args_dict,
      req_auth = (''mcp-tool'', ''mcp-secret''),
      req_stream = False\<rparr>"

text \<open>
  The body of the \<^verbatim>\<open>try\<close> block (lines 101 to 104): \<open>Inl e\<close> when a statement raises
  \<open>e\<close>. The request is logged in the world whether or not the call succeeds. The
  expressions are evaluated in the order of the source: the division of line 103 first,
  then the two slices of line 104.
\<close>

definition dataset_query_try ::
  "'r world \<Rightarrow> (string \<times> pyval) list \<Rightarrow> int \<Rightarrow> int \<Rightarrow> int \<Rightarrow> int
     \<Rightarrow> (exn + 'r envelope) \<times> 'r world" where
  "dataset_query_try w args_dict page page_size start end' =
     (let req = query_request args_dict;
          w' = w\<lparr>sent := sent w @ [req]\<rparr>
      in case remote w req of
           Inl e \<Rightarrow> (Inl e, w')
         | Inr response \<Rightarrow>
            (case json_result response of
               Inl e \<Rightarrow> (Inl e, w')
             | Inr response_json \<Rightarrow>
                (case json_len response_json of
                   Inl e \<Rightarrow> (Inl e, w')
                 | Inr n \<Rightarrow>
                    (case py_floordiv (n + page_size - 1) page_size of
                       Inl e \<Rightarrow> (Inl e, w')
                     | Inr total_pages \<Rightarrow>
                        (case json_slice response_json start end' of
                           Inl e \<Rightarrow> (Inl e, w')
                         | Inr results \<Rightarrow>
                            (case json_slice response_json start end' of
                               Inl e \<Rightarrow> (Inl e, w')
                             | Inr results' \<Rightarrow>
                                (case json_len results' of
                                   Inl e \<Rightarrow> (Inl e, w')
                                 | Inr result_length \<Rightarrow>
                                    (Inr (QuerySuccess results result_length page page_size
                                            total_pages), w'))))))))"

text \<open>
  The whole function. \<open>Inl e\<close> would be an exception leaving the function; \<open>Inr\<close> is
  the returned dictionary. The two \<^verbatim>\<open>pop\<close> calls and the arithmetic of lines 96 to 99
  are outside the \<^verbatim>\<open>try\<close>.
\<close>

definition dataset_query ::
  "'r world \<Rightarrow> query_args \<Rightarrow> int \<Rightarrow> int \<Rightarrow> (exn + 'r envelope) \<times> 'r world" where
  "dataset_query w a page page_size =
     (case dict_pop ''page'' (locals_dict a page page_size) of
        Inl e \<Rightarrow> (Inl e, w)
      | Inr d \<Rightarrow>
         (case dict_pop ''page_size'' d of
            Inl e \<Rightarrow> (Inl e, w)
          | Inr args_dict \<Rightarrow>
             (let start = (page - 1) * page_size;
                  end' = start + page_size
              in case dataset_query_try w args_dict page page_size start end' of
                   (Inr result, w') \<Rightarrow> (Inr result, w')
                 | (Inl e, w') \<Rightarrow> (Inr (QueryFailure e), w'))))"

text \<open>
  The dictionary \<open>args_dict\<close> as it stands after the two \<^verbatim>\<open>pop\<close> calls of lines 96
  and 97 (lemmas \<open>pop_page\<close> and \<open>pop_page_size\<close> below derive it from
  \<open>locals_dict\<close>): the nineteen filter fields.
\<close>

definition args_dict :: "query_args \<Rightarrow> (string \<times> pyval) list" where
  "args_dict a =
     [(''name'', of_str (name a)),
      (''authors'', of_str (authors a)),
      (''description'', of_str (description a)),
      (''elements'', of_strs (elements a)),
      (''exact_elements'', PBool (exact_elements a)),
      (''doi'', of_str (doi a)),
      (''min_co'', of_int_opt (min_co a)),
      (''max_co'', of_int_opt (max_co a)),
      (''min_elements'', of_int_opt (min_elements a)),
      (''max_elements'', of_int_opt (max_elements a)),
      (''min_atoms'', of_int_opt (min_atoms a)),
      (''max_atoms'', of_int_opt (max_atoms a)),
      (''property_types'', of_strs (property_types a)),
      (''license'', of_strs (license a)),
      (''equilibrium'', of_bool_opt (equilibrium a)),
      (''given_sort_by'', of_str (given_sort_by a)),
      (''given_sort_direction'', PStr (given_sort_direction a)),
      (''software'', of_strs (software a)),
      (''methods_text_filter'', of_strs (methods_text_filter a))]"

section \<open>download\_dataset\<close>

text \<open>
  The result of \<^verbatim>\<open>download_dataset\<close>: one of the two dictionaries of lines 135 and 137.
  The function returns \<open>None\<close> (Python's implicit \<^verbatim>\<open>None\<close>) when it falls off its end.
\<close>

datatype download_result =
    DownloadSuccess (Downloaded_File: string)
  | DownloadFailure (Error: exn)

text \<open>An f-string field \<^verbatim>\<open>{dataset_id}\<close>: \<^verbatim>\<open>None\<close> is formatted as the text None.\<close>

definition fstr :: "string option \<Rightarrow> string" where
  "fstr v = (case v of None \<Rightarrow> ''None'' | Some s \<Rightarrow> s)"

text \<open>Truth value of an optional string: \<^verbatim>\<open>None\<close> and the empty string are false.\<close>

definition truthy :: "string option \<Rightarrow> bool" where
  "truthy v = (case v of None \<Rightarrow> False | Some s \<Rightarrow> s \<noteq> [])"

text \<open>
  \<^verbatim>\<open>Response.raise_for_status()\<close> of the requests library raises HTTPError for the
  client-error and server-error statuses, 400 to 599, and returns for every other status.
\<close>

definition raise_for_status :: "('r, 'x) response_scheme \<Rightarrow> exn option" where
  "raise_for_status r =
     (if 400 \<le> status_code r \<and> status_code r < 600 then Some (HTTPError (status_code r))
      else None)"

text \<open>
  Lines 120 to 126: the name of the remote file and the local destination, as a pair
  \<open>(filename, saved_file)\<close>.
\<close>

definition download_target :: "string \<Rightarrow> string option \<Rightarrow> string \<Rightarrow> string \<times> string" where
  "download_target download_dir dataset_id format =
     (if format = ''parquet''
      then (let filename = fstr dataset_id @ ''.tar.gz''
            in (filename, download_dir @ ''/'' @ filename))
      else (let filename = fstr dataset_id
            in (filename, download_dir @ ''/'' @ filename @ ''.tar.xz'')))"

text \<open>
  The loop of lines 133 and 134 over the chunks of the body: a chunk that fails to arrive,
  or a write that fails, raises and leaves what was written so far. The file has been
  created by \<^verbatim>\<open>open\<close> before the loop starts.
\<close>

fun write_chunks :: "'r world \<Rightarrow> string \<Rightarrow> (exn + bytes) list \<Rightarrow> exn option \<times> 'r world" where
  "write_chunks w path [] = (None, w)"
| "write_chunks w path (Inl e # rest) = (Some e, w)"
| "write_chunks w path (Inr chunk # rest) =
     (case write_error w path chunk of
        Some e \<Rightarrow> (Some e, w)
      | None \<Rightarrow>
         write_chunks
           (w\<lparr>files := (files w)(path \<mapsto> (case files w path of None \<Rightarrow> [] | Some old \<Rightarrow> old) @ chunk)\<rparr>)
           path rest)"

definition download_request :: "string \<Rightarrow> request" where
  "download_request url =
     \<lparr>req_method = ''GET'',
      req_url = url,
      req_json = None,
      req_auth = (''mcp-tool'', ''mcp-secret''),
      req_stream = True\<rparr>"

text \<open>
  The body of the \<^verbatim>\<open>try\<close> block (lines 129 to 135). Opening with mode \<^verbatim>\<open>'wb'\<close>
  creates the file or empties an existing one. Writes are not buffered in the model: a
  chunk that is written is in the file, so a failure on flushing or closing is a failed
  write.
\<close>

definition download_try ::
  "'r world \<Rightarrow> string \<Rightarrow> string \<Rightarrow> string \<Rightarrow> (exn + download_result) \<times> 'r world" where
  "download_try w format filename saved_file =
     (let url = ''https://materials.colabfit.org/mcp/dataset-download/'' @ format @ ''/'' @ filename;
          req = download_request url;
          w1 = w\<lparr>sent := sent w @ [req]\<rparr>
      in case remote w req of
           Inl e \<Rightarrow> (Inl e, w1)
         | Inr r \<Rightarrow>
            (case raise_for_status r of
               Some e \<Rightarrow> (Inl e, w1)
             | None \<Rightarrow>
                (case open_error w1 saved_file of
                   Some e \<Rightarrow> (Inl e, w1)
                 | None \<Rightarrow>
                    (case write_chunks (w1\<lparr>files := (files w1)(saved_file \<mapsto> [])\<rparr>) saved_file
                            (content_stream r) of
                       (Some e, w2) \<Rightarrow> (Inl e, w2)
                     | (None, w2) \<Rightarrow> (Inr (DownloadSuccess saved_file), w2)))))"

definition download_dataset ::
  "'r world \<Rightarrow> string option \<Rightarrow> string \<Rightarrow> download_result option \<times> 'r world" where
  "download_dataset w dataset_id format =
     (let download_dir = downloads_dir w;
          (filename, saved_file) = download_target download_dir dataset_id format
      in if truthy dataset_id
         then (case download_try w format filename saved_file of
                 (Inr result, w') \<Rightarrow> (Some result, w')
               | (Inl e, w') \<Rightarrow> (Some (DownloadFailure e), w'))
         else (None, w))"

section \<open>Example values\<close>

text \<open>
  A call with every argument at its default, a result set of twenty-five records, and
  worlds built around a given behaviour of the remote service. They instantiate the
  theorems below at concrete inputs.
\<close>

definition default_args :: query_args where
  "default_args =
     \<lparr>name = None, authors = None, description = None, elements = None,
      exact_elements = False, doi = None, min_co = None, max_co = None,
      min_elements = None, max_elements = None, min_atoms = None, max_atoms = None,
      property_types = None, license = None, equilibrium = None, given_sort_by = None,
      given_sort_direction = ''descending'', software = None, methods_text_filter = None\<rparr>"

definition records25 :: "nat list" where
  "records25 = [1, 2, 3, 4, 5, 6, 7, 8, 9, 10, 11, 12, 13, 14, 15, 16, 17, 18, 19, 20,
                21, 22, 23, 24, 25]"

definition reply :: "nat \<Rightarrow> exn + nat json \<Rightarrow> (exn + bytes) list \<Rightarrow> nat response" where
  "reply st j body = \<lparr>status_code = st, json_result = j, content_stream = body\<rparr>"

definition world_with :: "(request \<Rightarrow> exn + nat response) \<Rightarrow> nat world" where
  "world_with f =
     \<lparr>remote = f, sent = [], files = Map.empty, open_error = (\<lambda>p. None),
      write_error = (\<lambda>p c. None), downloads_dir = ''/home/user/Downloads''\<rparr>"

text \<open>
  A reply with status 304 (neither a success status, 200 to 299, nor an error status) and
  a world in which the service gives it to every request while the destination of
  \<open>DS_abc123_0\<close> in format \<open>parquet\<close> already exists.
\<close>

definition not_modified_reply :: "nat response" where
  "not_modified_reply = reply 304 (Inl (JSONDecodeError ''Expecting value'')) [Inr ''xy'']"

definition not_modified_world :: "nat world" where
  "not_modified_world =
     (world_with (\<lambda>q. Inr not_modified_reply))
       \<lparr>files := [''/home/user/Downloads/DS_abc123_0.tar.gz'' \<mapsto> ''old'']\<rparr>"

section \<open>Auxiliary facts\<close>

subsection \<open>The two pops and the shape of dataset\_query\<close>

lemma pop_page: "dict_pop ''page'' (locals_dict a page page_size) = Inr (args_dict a @ [(''page_size'', PInt page_size)])"
  by (simp add: dict_pop_def locals_dict_def args_dict_def)

lemma pop_page_size: "dict_pop ''page_size'' (args_dict a @ [(''page_size'', PInt page_size)]) = Inr (args_dict a)"
  by (simp add: dict_pop_def args_dict_def)

lemma dataset_query_eq:
  "dataset_query w a page page_size =
     (case dataset_query_try w (args_dict a) page page_size
             ((page - 1) * page_size) ((page - 1) * page_size + page_size) of
        (Inr result, w') \<Rightarrow> (Inr result, w')
      | (Inl e, w') \<Rightarrow> (Inr (QueryFailure e), w'))"
  by (simp add: dataset_query_def pop_page pop_page_size Let_def)

lemma dataset_query_try_world:
  "snd (dataset_query_try w d page page_size s e) = w\<lparr>sent := sent w @ [query_request d]\<rparr>"
  by (simp add: dataset_query_try_def Let_def split: sum.splits)

lemma dataset_query_try_raises:
  "remote w (query_request d) = Inl x \<Longrightarrow> fst (dataset_query_try w d page page_size s e) = Inl x"
  by (simp add: dataset_query_try_def Let_def)

lemma dataset_query_try_decode:
  "remote w (query_request d) = Inr r \<Longrightarrow> json_result r = Inl x \<Longrightarrow>
   fst (dataset_query_try w d page page_size s e) = Inl x"
  by (simp add: dataset_query_try_def Let_def)

lemma dataset_query_try_array:
  "remote w (query_request d) = Inr r \<Longrightarrow> json_result r = Inr (JArray xs) \<Longrightarrow> page_size \<noteq> 0 \<Longrightarrow>
   fst (dataset_query_try w d page page_size s e) =
     Inr (QuerySuccess (JArray (py_slice xs s e)) (int (length (py_slice xs s e))) page page_size
            ((int (length xs) + page_size - 1) div page_size))"
  by (simp add: dataset_query_try_def Let_def py_floordiv_def)

lemma dataset_query_try_zero:
  "remote w (query_request d) = Inr r \<Longrightarrow> json_result r = Inr j \<Longrightarrow>
   fst (dataset_query_try w d page 0 s e) = Inl (case json_len j of Inl x \<Rightarrow> x | Inr n \<Rightarrow> ZeroDivisionError)"
  by (simp add: dataset_query_try_def Let_def py_floordiv_def split: sum.splits)

lemma dataset_query_fst:
  "fst (dataset_query w a page page_size) =
     (case fst (dataset_query_try w (args_dict a) page page_size
             ((page - 1) * page_size) ((page - 1) * page_size + page_size)) of
        Inr result \<Rightarrow> Inr result
      | Inl e \<Rightarrow> Inr (QueryFailure e))"
  by (simp add: dataset_query_eq split: prod.splits sum.splits)

lemma dataset_query_snd:
  "snd (dataset_query w a page page_size) = w\<lparr>sent := sent w @ [query_request (args_dict a)]\<rparr>"
  using dataset_query_try_world[of w "args_dict a" page page_size "(page - 1) * page_size" "(page - 1) * page_size + page_size"]
  by (auto simp add: dataset_query_eq split: prod.splits sum.splits)

lemma dataset_query_try_json:
  "remote w1 (query_request d) = Inr r1 \<Longrightarrow> remote w2 (query_request d) = Inr r2 \<Longrightarrow>
   json_result r1 = json_result r2 \<Longrightarrow>
   fst (dataset_query_try w1 d page page_size s e) = fst (dataset_query_try w2 d page page_size s e)"
  by (simp add: dataset_query_try_def Let_def split: sum.splits)

lemma dataset_query_try_remote:
  "remote w1 (query_request d) = remote w2 (query_request d) \<Longrightarrow>
   fst (dataset_query_try w1 d page page_size s e) = fst (dataset_query_try w2 d page page_size s e)"
  by (simp add: dataset_query_try_def Let_def split: sum.splits)


lemma floordiv_ceiling:
  fixes n ps :: int
  assumes "0 < ps"
  shows "(n + ps - 1) div ps = \<lceil>real_of_int n / real_of_int ps\<rceil>"
proof -
  define k where "k = (n + ps - 1) div ps"
  define r where "r = (n + ps - 1) mod ps"
  have eq: "n + ps - 1 = k * ps + r"
    unfolding k_def r_def by simp
  have r0: "0 \<le> r" and r1: "r < ps"
    unfolding r_def using assms by simp_all
  have lo: "(k - 1) * ps < n"
    using eq r0 by (simp add: algebra_simps)
  have hi: "n \<le> k * ps"
    using eq r1 by (simp add: algebra_simps)
  have ps_real: "0 < real_of_int ps"
    using assms by simp
  have "real_of_int ((k - 1) * ps) < real_of_int n"
    using lo by (simp only: of_int_less_iff)
  then have a: "real_of_int k - 1 < real_of_int n / real_of_int ps"
    using ps_real by (simp add: pos_less_divide_eq)
  have "real_of_int n \<le> real_of_int (k * ps)"
    using hi by (simp only: of_int_le_iff)
  then have b: "real_of_int n / real_of_int ps \<le> real_of_int k"
    using ps_real by (simp add: pos_divide_le_eq)
  have "\<lceil>real_of_int n / real_of_int ps\<rceil> = k"
    using a b by (rule ceiling_unique)
  then show ?thesis
    by (simp add: k_def)
qed

lemma py_slice_page:
  assumes "1 \<le> page" and "1 \<le> ps"
  shows "py_slice xs ((page - 1) * ps) ((page - 1) * ps + ps)
           = take (nat ps) (drop (nat ((page - 1) * ps)) xs)"
proof -
  define start where "start = (page - 1) * ps"
  have s0: "0 \<le> start"
    unfolding start_def using assms by simp
  show ?thesis
  proof (cases "int (length xs) \<le> start")
    case True
    then have "length xs \<le> nat start" by simp
    then have "drop (nat start) xs = []" by simp
    moreover have "py_slice xs start (start + ps) = []"
      using True s0 assms(2) by (simp add: py_slice_def adjust_index_def Let_def)
    ultimately show ?thesis by (simp add: start_def)
  next
    case False
    show ?thesis
    proof (cases "int (length xs) \<le> start + ps")
      case True
      have "py_slice xs start (start + ps) = take (nat (int (length xs) - start)) (drop (nat start) xs)"
        using True False s0 assms(2) by (simp add: py_slice_def adjust_index_def Let_def)
      also have "\<dots> = drop (nat start) xs"
        using s0 by simp
      also have "\<dots> = take (nat ps) (drop (nat start) xs)"
        using True s0 by simp
      finally show ?thesis by (simp add: start_def)
    next
      case inner: False
      have "py_slice xs start (start + ps) = take (nat ps) (drop (nat start) xs)"
        using inner False s0 assms(2) by (simp add: py_slice_def adjust_index_def Let_def)
      then show ?thesis by (simp add: start_def)
    qed
  qed
qed

lemma py_slice_page_zero: "1 \<le> ps \<Longrightarrow> py_slice xs (- ps) 0 = []"
  by (simp add: py_slice_def adjust_index_def Let_def)

lemma dataset_query_array:
  assumes "remote w (query_request (args_dict a)) = Inr r"
    and "json_result r = Inr (JArray xs)"
    and "page_size \<noteq> 0"
  shows "fst (dataset_query w a page page_size) =
           Inr (QuerySuccess
                  (JArray (py_slice xs ((page - 1) * page_size) ((page - 1) * page_size + page_size)))
                  (int (length (py_slice xs ((page - 1) * page_size)
                                  ((page - 1) * page_size + page_size))))
                  page page_size
                  ((int (length xs) + page_size - 1) div page_size))"
  using dataset_query_try_array[OF assms] by (simp add: dataset_query_fst)

lemma total_pages_ceiling:
  "1 \<le> page_size \<Longrightarrow>
   (int (length xs) + page_size - 1) div page_size = \<lceil>real (length xs) / real_of_int page_size\<rceil>"
  using floordiv_ceiling[of page_size "int (length xs)"] by simp

subsection \<open>The download\<close>





lemma download_dataset_nonempty:
  "dataset_id \<noteq> [] \<Longrightarrow>
   download_dataset w (Some dataset_id) format =
     (case download_try w format (fst (download_target (downloads_dir w) (Some dataset_id) format))
             (snd (download_target (downloads_dir w) (Some dataset_id) format)) of
        (Inr result, w') \<Rightarrow> (Some result, w')
      | (Inl e, w') \<Rightarrow> (Some (DownloadFailure e), w'))"
  by (simp add: download_dataset_def truthy_def Let_def split: prod.splits)

section \<open>Properties of dataset\_query\<close>

text \<open>
  C1. For \<open>page \<ge> 1\<close> and \<open>page_size \<ge> 1\<close>, when the remote endpoint answers with a
  list \<open>fullset\<close> of length N, the call returns the success envelope whose results are
  the slice of \<open>fullset\<close> starting at \<open>(page - 1) * page_size\<close> and holding at most
  \<open>page_size\<close> records (clipped to what is available), whose result length is the length
  of that slice, and whose total pages is the ceiling of \<open>N / page_size\<close>.
\<close>

theorem dataset_query_pagination:
  assumes "1 \<le> page" and "1 \<le> page_size"
    and "remote w (query_request (args_dict a)) = Inr r"
    and "json_result r = Inr (JArray fullset)"
  shows "fst (dataset_query w a page page_size) =
           Inr (QuerySuccess
                  (JArray (take (nat page_size) (drop (nat ((page - 1) * page_size)) fullset)))
                  (int (length (take (nat page_size) (drop (nat ((page - 1) * page_size)) fullset))))
                  page page_size
                  \<lceil>real (length fullset) / real_of_int page_size\<rceil>)"
proof -
  have "page_size \<noteq> 0"
    using assms(2) by simp
  then show ?thesis
    using dataset_query_array[OF assms(3) assms(4), of page_size page]
    by (simp add: py_slice_page[OF assms(1) assms(2)] total_pages_ceiling[OF assms(2)])
qed

theorem dataset_query_pagination_witness:
  "fst (dataset_query (world_with (\<lambda>q. Inr (reply 200 (Inr (JArray records25)) []))) default_args 3 10)
     = Inr (QuerySuccess (JArray [21, 22, 23, 24, 25]) 5 3 10 3)"
  using dataset_query_pagination[of 3 10 "world_with (\<lambda>q. Inr (reply 200 (Inr (JArray records25)) []))"
      default_args "reply 200 (Inr (JArray records25)) []" records25]
  by (simp add: world_with_def reply_def records25_def)

text \<open>
  C2. Whatever the remote service does, the call returns a dictionary and no exception
  leaves it: an exception of the network call, of the decoding of the reply, or of the
  slicing (indeed any exception raised inside the try block) comes back as the failure
  envelope holding that exception.
\<close>

theorem dataset_query_always_returns:
  "\<exists>env. fst (dataset_query w a page page_size) = Inr env
     \<and> (\<forall>x. fst (dataset_query_try w (args_dict a) page page_size
                  ((page - 1) * page_size) ((page - 1) * page_size + page_size)) = Inl x
            \<longrightarrow> env = QueryFailure x)
     \<and> (\<forall>x. remote w (query_request (args_dict a)) = Inl x \<longrightarrow> env = QueryFailure x)
     \<and> (\<forall>r x. remote w (query_request (args_dict a)) = Inr r \<and> json_result r = Inl x
            \<longrightarrow> env = QueryFailure x)
     \<and> (\<forall>r j n x. remote w (query_request (args_dict a)) = Inr r \<and> json_result r = Inr j
              \<and> json_len j = Inr n \<and> page_size \<noteq> 0
              \<and> json_slice j ((page - 1) * page_size) ((page - 1) * page_size + page_size) = Inl x
            \<longrightarrow> env = QueryFailure x)"
proof -
  let ?t = "fst (dataset_query_try w (args_dict a) page page_size
                  ((page - 1) * page_size) ((page - 1) * page_size + page_size))"
  obtain env where env: "fst (dataset_query w a page page_size) = Inr env"
    by (cases ?t) (simp_all add: dataset_query_fst)
  have caught: "env = QueryFailure x" if "?t = Inl x" for x
    using env that by (simp add: dataset_query_fst)
  have net: "env = QueryFailure x" if "remote w (query_request (args_dict a)) = Inl x" for x
    using caught dataset_query_try_raises[OF that] by simp
  have dec: "env = QueryFailure x"
    if "remote w (query_request (args_dict a)) = Inr r" and "json_result r = Inl x" for r x
    using caught dataset_query_try_decode[OF that] by simp
  have sl: "env = QueryFailure x"
    if "remote w (query_request (args_dict a)) = Inr r" and "json_result r = Inr j"
      and "json_len j = Inr n" and "page_size \<noteq> 0"
      and "json_slice j ((page - 1) * page_size) ((page - 1) * page_size + page_size) = Inl x"
    for r j n x
  proof -
    have "?t = Inl x"
      using that by (simp add: dataset_query_try_def Let_def py_floordiv_def)
    then show ?thesis by (rule caught)
  qed
  show ?thesis
    using env caught net dec sl by blast
qed

theorem dataset_query_always_returns_witness:
  "fst (dataset_query (world_with (\<lambda>q. Inl (RequestException ''connection refused''))) default_args 1 10)
     = Inr (QueryFailure (RequestException ''connection refused''))
   \<and> fst (dataset_query (world_with (\<lambda>q. Inr (reply 200 (Inl (JSONDecodeError ''Expecting value'')) [])))
            default_args 1 10)
     = Inr (QueryFailure (JSONDecodeError ''Expecting value''))
   \<and> fst (dataset_query (world_with (\<lambda>q. Inr (reply 200 (Inr (JObject [(''detail'', 0)])) [])))
            default_args 1 10)
     = Inr (QueryFailure (TypeError ''unhashable type: slice''))"
  using dataset_query_always_returns[of "world_with (\<lambda>q. Inl (RequestException ''connection refused''))"
          default_args 1 10]
    dataset_query_always_returns[of "world_with (\<lambda>q. Inr (reply 200 (Inl (JSONDecodeError ''Expecting value'')) []))"
          default_args 1 10]
    dataset_query_always_returns[of "world_with (\<lambda>q. Inr (reply 200 (Inr (JObject [(''detail'', 0)])) []))"
          default_args 1 10]
  by (auto simp add: world_with_def reply_def)

text \<open>
  C3. For \<open>page \<ge> 1\<close> and \<open>page_size \<ge> 1\<close> with \<open>(page - 1) * page_size \<ge> N\<close>, the call
  succeeds with empty results, result length 0 and total pages still the ceiling of
  \<open>N / page_size\<close>; page 4 with page size 10 on any result set of 25 records gives result
  length 0, success and 3 total pages.
\<close>

theorem dataset_query_past_last_page:
  "(1 \<le> page \<and> 1 \<le> page_size
      \<and> remote w (query_request (args_dict a)) = Inr r
      \<and> json_result r = Inr (JArray fullset)
      \<and> int (length fullset) \<le> (page - 1) * page_size
    \<longrightarrow> fst (dataset_query w a page page_size) =
          Inr (QuerySuccess (JArray []) 0 page page_size
                 \<lceil>real (length fullset) / real_of_int page_size\<rceil>))
   \<and> (remote w (query_request (args_dict a)) = Inr r
      \<and> json_result r = Inr (JArray fullset)
      \<and> length fullset = 25
    \<longrightarrow> fst (dataset_query w a 4 10) = Inr (QuerySuccess (JArray []) 0 4 10 3))"
proof -
  have general: "fst (dataset_query w a p ps) =
          Inr (QuerySuccess (JArray []) 0 p ps \<lceil>real (length fullset) / real_of_int ps\<rceil>)"
    if "1 \<le> p" and "1 \<le> ps"
      and "remote w (query_request (args_dict a)) = Inr r"
      and "json_result r = Inr (JArray fullset)"
      and "int (length fullset) \<le> (p - 1) * ps" for p ps
  proof -
    have "length fullset \<le> nat ((p - 1) * ps)"
      using nat_mono[OF that(5)] by simp
    then have "drop (nat ((p - 1) * ps)) fullset = []"
      by simp
    then have "py_slice fullset ((p - 1) * ps) ((p - 1) * ps + ps) = []"
      by (simp add: py_slice_page[OF that(1) that(2)])
    moreover have "ps \<noteq> 0"
      using that(2) by simp
    ultimately show ?thesis
      using dataset_query_array[OF that(3) that(4), of ps p]
      by (simp add: total_pages_ceiling[OF that(2)])
  qed
  have at_25: "fst (dataset_query w a 4 10) = Inr (QuerySuccess (JArray []) 0 4 10 3)"
    if "remote w (query_request (args_dict a)) = Inr r"
      and "json_result r = Inr (JArray fullset)"
      and "length fullset = 25"
    using general[of 4 10] that by simp
  show ?thesis
    using general[of page page_size] at_25 by blast
qed

theorem dataset_query_past_last_page_witness:
  "fst (dataset_query (world_with (\<lambda>q. Inr (reply 200 (Inr (JArray records25)) []))) default_args 4 10)
     = Inr (QuerySuccess (JArray []) 0 4 10 3)
   \<and> fst (dataset_query (world_with (\<lambda>q. Inr (reply 200 (Inr (JArray records25)) []))) default_args 7 5)
     = Inr (QuerySuccess (JArray []) 0 7 5 5)"
  using dataset_query_past_last_page[of 7 5 "world_with (\<lambda>q. Inr (reply 200 (Inr (JArray records25)) []))"
      default_args "reply 200 (Inr (JArray records25)) []" records25]
  by (simp add: world_with_def reply_def records25_def)

text \<open>
  C4. The one request of a call is a POST to the query endpoint whose JSON body holds
  the nineteen filter fields, each with the value of the argument of that name, and
  holds neither \<open>page\<close> nor \<open>page_size\<close>: they are popped from the dictionary of the
  arguments before the request is made.
\<close>

theorem dataset_query_payload:
  "sent (snd (dataset_query w a page page_size)) =
     sent w @
       [\<lparr>req_method = ''POST'',
         req_url = ''https://materials.colabfit.org/mcp/dataset-query'',
         req_json = Some
           [(''name'', of_str (name a)),
            (''authors'', of_str (authors a)),
            (''description'', of_str (description a)),
            (''elements'', of_strs (elements a)),
            (''exact_elements'', PBool (exact_elements a)),
            (''doi'', of_str (doi a)),
            (''min_co'', of_int_opt (min_co a)),
            (''max_co'', of_int_opt (max_co a)),
            (''min_elements'', of_int_opt (min_elements a)),
            (''max_elements'', of_int_opt (max_elements a)),
            (''min_atoms'', of_int_opt (min_atoms a)),
            (''max_atoms'', of_int_opt (max_atoms a)),
            (''property_types'', of_strs (property_types a)),
            (''license'', of_strs (license a)),
            (''equilibrium'', of_bool_opt (equilibrium a)),
            (''given_sort_by'', of_str (given_sort_by a)),
            (''given_sort_direction'', PStr (given_sort_direction a)),
            (''software'', of_strs (software a)),
            (''methods_text_filter'', of_strs (methods_text_filter a))],
         req_auth = (''mcp-tool'', ''mcp-secret''),
         req_stream = False\<rparr>]
   \<and> ''page'' \<notin> fst ` set (args_dict a)
   \<and> ''page_size'' \<notin> fst ` set (args_dict a)
   \<and> (\<exists>d. dict_pop ''page'' (locals_dict a page page_size) = Inr d
            \<and> dict_pop ''page_size'' d = Inr (args_dict a))"
proof -
  have "sent (snd (dataset_query w a page page_size)) = sent w @ [query_request (args_dict a)]"
    by (simp add: dataset_query_snd)
  moreover have "''page'' \<notin> fst ` set (args_dict a)"
    by (simp add: args_dict_def)
  moreover have "''page_size'' \<notin> fst ` set (args_dict a)"
    by (simp add: args_dict_def)
  moreover have "\<exists>d. dict_pop ''page'' (locals_dict a page page_size) = Inr d
            \<and> dict_pop ''page_size'' d = Inr (args_dict a)"
    using pop_page pop_page_size by blast
  ultimately show ?thesis
    by (simp add: query_request_def args_dict_def)
qed

text \<open>
  C8. The envelope is a function of the arguments and of the result list alone: two calls
  with the same arguments, in two worlds whose remote service answers the request with
  replies that decode to the same value (the same result list, in particular), return the
  same envelope, whatever else differs (the status code and the raw body of the replies,
  the files, the log of requests). The same holds when both calls fail with the same
  exception, and when the call is issued a second time after the first.
\<close>

theorem dataset_query_deterministic:
  "(remote w1 (query_request (args_dict a)) = Inr r1
      \<and> remote w2 (query_request (args_dict a)) = Inr r2
      \<and> json_result r1 = json_result r2
      \<longrightarrow> fst (dataset_query w1 a page page_size) = fst (dataset_query w2 a page page_size))
   \<and> (remote w1 (query_request (args_dict a)) = Inl x
      \<and> remote w2 (query_request (args_dict a)) = Inl x
      \<longrightarrow> fst (dataset_query w1 a page page_size) = fst (dataset_query w2 a page page_size))
   \<and> fst (dataset_query (snd (dataset_query w1 a page page_size)) a page page_size)
       = fst (dataset_query w1 a page page_size)"
proof -
  let ?q = "query_request (args_dict a)"
  have same_list: "fst (dataset_query w1 a page page_size) = fst (dataset_query w2 a page page_size)"
    if "remote w1 ?q = Inr r1" and "remote w2 ?q = Inr r2" and "json_result r1 = json_result r2"
    using dataset_query_try_json[OF that] by (simp add: dataset_query_fst)
  have same_exn: "fst (dataset_query w1 a page page_size) = fst (dataset_query w2 a page page_size)"
    if "remote w1 ?q = Inl x" and "remote w2 ?q = Inl x"
    using dataset_query_try_raises[OF that(1)] dataset_query_try_raises[OF that(2)]
    by (simp add: dataset_query_fst)
  have "remote (snd (dataset_query w1 a page page_size)) ?q = remote w1 ?q"
    by (simp add: dataset_query_snd)
  then have again: "fst (dataset_query (snd (dataset_query w1 a page page_size)) a page page_size)
       = fst (dataset_query w1 a page page_size)"
    using dataset_query_try_remote[of "snd (dataset_query w1 a page page_size)" "args_dict a" w1]
    by (simp add: dataset_query_fst)
  show ?thesis
    using same_list same_exn again by blast
qed

theorem dataset_query_deterministic_witness:
  "fst (dataset_query (world_with (\<lambda>q. Inr (reply 200 (Inr (JArray records25)) []))) default_args 2 10)
     = fst (dataset_query
              ((world_with (\<lambda>q. Inr (reply 500 (Inr (JArray records25)) [Inr ''raw body''])))
                 \<lparr>sent := [download_request ''https://materials.colabfit.org/mcp/dataset-download/parquet/DS_abc123_0.tar.gz''],
                  files := [''/tmp/x'' \<mapsto> ''abc''],
                  downloads_dir := ''/root/Downloads''\<rparr>)
              default_args 2 10)
   \<and> fst (dataset_query (world_with (\<lambda>q. Inr (reply 200 (Inr (JArray records25)) []))) default_args 2 10)
     = Inr (QuerySuccess (JArray [11, 12, 13, 14, 15, 16, 17, 18, 19, 20]) 10 2 10 3)"
  using dataset_query_deterministic[of
      "world_with (\<lambda>q. Inr (reply 200 (Inr (JArray records25)) []))" default_args
      "reply 200 (Inr (JArray records25)) []"
      "(world_with (\<lambda>q. Inr (reply 500 (Inr (JArray records25)) [Inr ''raw body''])))
                 \<lparr>sent := [download_request ''https://materials.colabfit.org/mcp/dataset-download/parquet/DS_abc123_0.tar.gz''],
                  files := [''/tmp/x'' \<mapsto> ''abc''],
                  downloads_dir := ''/root/Downloads''\<rparr>"
      "reply 500 (Inr (JArray records25)) [Inr ''raw body'']"]
    dataset_query_array[of "world_with (\<lambda>q. Inr (reply 200 (Inr (JArray records25)) []))" default_args
      "reply 200 (Inr (JArray records25)) []" records25 10 2]
  by (simp add: world_with_def reply_def records25_def py_slice_def adjust_index_def)

text \<open>
  C9. With \<open>page_size = 0\<close> the call returns the failure envelope, whatever the remote
  service does; when the call and the decoding succeed and the reply has a length, the
  failure is the division by zero of the total-pages computation.
\<close>

theorem dataset_query_page_size_zero:
  "(\<exists>x. fst (dataset_query w a page 0) = Inr (QueryFailure x))
   \<and> (\<forall>r j n. remote w (query_request (args_dict a)) = Inr r \<and> json_result r = Inr j
          \<and> json_len j = Inr n
        \<longrightarrow> fst (dataset_query w a page 0) = Inr (QueryFailure ZeroDivisionError))"
proof -
  let ?q = "query_request (args_dict a)"
  have zero: "fst (dataset_query w a page 0) = Inr (QueryFailure ZeroDivisionError)"
    if "remote w ?q = Inr r" and "json_result r = Inr j" and "json_len j = Inr n" for r j n
    using dataset_query_try_zero[OF that(1) that(2), of page "(page - 1) * 0" "(page - 1) * 0 + 0"] that(3)
    by (simp add: dataset_query_fst)
  have "\<exists>x. fst (dataset_query w a page 0) = Inr (QueryFailure x)"
  proof (cases "remote w ?q")
    case (Inl x)
    then show ?thesis
      using dataset_query_try_raises[OF Inl, of page 0 "(page - 1) * 0" "(page - 1) * 0 + 0"]
      by (simp add: dataset_query_fst)
  next
    case (Inr r)
    show ?thesis
    proof (cases "json_result r")
      case (Inl x)
      then show ?thesis
        using dataset_query_try_decode[OF Inr Inl, of page 0 "(page - 1) * 0" "(page - 1) * 0 + 0"]
        by (simp add: dataset_query_fst)
    next
      case j: (Inr j)
      then show ?thesis
        using dataset_query_try_zero[OF Inr j, of page "(page - 1) * 0" "(page - 1) * 0 + 0"]
        by (simp add: dataset_query_fst)
    qed
  qed
  then show ?thesis
    using zero by blast
qed

theorem dataset_query_page_size_zero_witness:
  "fst (dataset_query (world_with (\<lambda>q. Inr (reply 200 (Inr (JArray records25)) []))) default_args 1 0)
     = Inr (QueryFailure ZeroDivisionError)"
  using dataset_query_page_size_zero[of "world_with (\<lambda>q. Inr (reply 200 (Inr (JArray records25)) []))"
      default_args 1]
  by (auto simp add: world_with_def reply_def)

text \<open>
  C10. With \<open>page = 0\<close> and \<open>page_size \<ge> 1\<close>, on a list reply the slice bounds are
  \<open>- page_size\<close> and \<open>0\<close>, and the call returns the success envelope with empty results
  and result length 0: neither the first page nor an error. (This holds for a reply of
  any length, the empty one included.)
\<close>

theorem dataset_query_page_zero:
  assumes "1 \<le> page_size"
    and "remote w (query_request (args_dict a)) = Inr r"
    and "json_result r = Inr (JArray fullset)"
  shows "fst (dataset_query w a 0 page_size) =
           Inr (QuerySuccess (JArray []) 0 0 page_size
                  \<lceil>real (length fullset) / real_of_int page_size\<rceil>)
         \<and> json_slice (JArray fullset) ((0 - 1) * page_size) ((0 - 1) * page_size + page_size)
             = json_slice (JArray fullset) (- page_size) 0"
proof -
  have ps: "page_size \<noteq> 0" "0 < page_size"
    using assms(1) by simp_all
  have tp: "(int (length fullset) + page_size - 1) div page_size
              = \<lceil>real (length fullset) / real_of_int page_size\<rceil>"
    using floordiv_ceiling[OF ps(2), of "int (length fullset)"] by simp
  show ?thesis
    using dataset_query_try_array[OF assms(2) assms(3) ps(1), of 0 "- page_size" 0]
    by (simp add: dataset_query_fst py_slice_page_zero[OF assms(1)] tp)
qed

theorem dataset_query_page_zero_witness:
  "fst (dataset_query (world_with (\<lambda>q. Inr (reply 200 (Inr (JArray records25)) []))) default_args 0 10)
     = Inr (QuerySuccess (JArray []) 0 0 10 3)"
  using dataset_query_page_zero[of 10 "world_with (\<lambda>q. Inr (reply 200 (Inr (JArray records25)) []))"
      default_args "reply 200 (Inr (JArray records25)) []" records25]
  by (simp add: world_with_def reply_def records25_def)

section \<open>Properties of download\_dataset\<close>



text \<open>
  C6, as the claim states it, fails: for a status that is not a success status and that
  \<open>raise_for_status\<close> does not signal, the call goes on to write. On the reply with
  status 304 the call for \<open>DS_abc123_0\<close> in format \<open>parquet\<close> replaces the content
  \<open>old\<close> of the destination by the body of the reply and reports success.
\<close>

theorem download_dataset_non_success_counterexample:
  "\<not> (200 \<le> status_code not_modified_reply \<and> status_code not_modified_reply < 300)
   \<and> remote not_modified_world
        (download_request
           ''https://materials.colabfit.org/mcp/dataset-download/parquet/DS_abc123_0.tar.gz'')
       = Inr not_modified_reply
   \<and> files not_modified_world ''/home/user/Downloads/DS_abc123_0.tar.gz'' = Some ''old''
   \<and> fst (download_dataset not_modified_world (Some ''DS_abc123_0'') ''parquet'')
       = Some (DownloadSuccess ''/home/user/Downloads/DS_abc123_0.tar.gz'')
   \<and> files (snd (download_dataset not_modified_world (Some ''DS_abc123_0'') ''parquet''))
         ''/home/user/Downloads/DS_abc123_0.tar.gz'' = Some ''xy''"
  by (simp add: not_modified_world_def not_modified_reply_def download_dataset_def
        download_try_def download_target_def fstr_def truthy_def raise_for_status_def
        world_with_def reply_def Let_def)

text \<open>
  C6, amended. For a non-empty \<open>dataset_id\<close>, when the remote service answers the GET
  with an error status (400 to 599, the statuses \<open>raise_for_status\<close> signals), the call
  returns the failure dictionary holding the HTTP error, and the only change to the world
  is the request in the log: the destination is neither opened nor written.
\<close>

theorem download_dataset_http_error:
  assumes "dataset_id \<noteq> []"
    and "remote w (download_request (''https://materials.colabfit.org/mcp/dataset-download/''
            @ format @ ''/'' @ fst (download_target (downloads_dir w) (Some dataset_id) format))) = Inr r"
    and "400 \<le> status_code r" and "status_code r < 600"
  shows "download_dataset w (Some dataset_id) format =
           (Some (DownloadFailure (HTTPError (status_code r))),
            w\<lparr>sent := sent w @ [download_request (''https://materials.colabfit.org/mcp/dataset-download/''
                @ format @ ''/'' @ fst (download_target (downloads_dir w) (Some dataset_id) format))]\<rparr>)
         \<and> files (snd (download_dataset w (Some dataset_id) format)) = files w"
proof -
  have "raise_for_status r = Some (HTTPError (status_code r))"
    using assms(3) assms(4) by (simp add: raise_for_status_def)
  then have "download_try w format (fst (download_target (downloads_dir w) (Some dataset_id) format))
               (snd (download_target (downloads_dir w) (Some dataset_id) format))
             = (Inl (HTTPError (status_code r)),
                w\<lparr>sent := sent w @ [download_request (''https://materials.colabfit.org/mcp/dataset-download/''
                @ format @ ''/'' @ fst (download_target (downloads_dir w) (Some dataset_id) format))]\<rparr>)"
    using assms(2) by (simp add: download_try_def Let_def)
  then show ?thesis
    using assms(1) by (simp add: download_dataset_nonempty)
qed

theorem download_dataset_http_error_witness:
  "download_dataset ((world_with (\<lambda>q. Inr (reply 404 (Inl (JSONDecodeError ''html'')) [Inr ''Not Found''])))
                       \<lparr>files := [''/home/user/Downloads/DS_abc123_0.tar.xz'' \<mapsto> ''old'']\<rparr>)
       (Some ''DS_abc123_0'') ''original''
     = (Some (DownloadFailure (HTTPError 404)),
        (world_with (\<lambda>q. Inr (reply 404 (Inl (JSONDecodeError ''html'')) [Inr ''Not Found''])))
           \<lparr>sent := [download_request ''https://materials.colabfit.org/mcp/dataset-download/original/DS_abc123_0''],
            files := [''/home/user/Downloads/DS_abc123_0.tar.xz'' \<mapsto> ''old'']\<rparr>)"
  using download_dataset_http_error[of "''DS_abc123_0''"
      "(world_with (\<lambda>q. Inr (reply 404 (Inl (JSONDecodeError ''html'')) [Inr ''Not Found''])))
                       \<lparr>files := [''/home/user/Downloads/DS_abc123_0.tar.xz'' \<mapsto> ''old'']\<rparr>"
      "''original''" "reply 404 (Inl (JSONDecodeError ''html'')) [Inr ''Not Found'']"]
  by (simp add: world_with_def reply_def download_target_def fstr_def)

text \<open>
  C7. When \<open>dataset_id\<close> is absent or empty, whatever the format, the call returns
  Python's \<open>None\<close> (no dictionary at all) and leaves the world as it was: no request
  is sent and no file is touched.
\<close>

theorem download_dataset_no_id:
  assumes "dataset_id = None \<or> dataset_id = Some []"
  shows "download_dataset w dataset_id format = (None, w)"
  using assms by (auto simp add: download_dataset_def truthy_def Let_def split: prod.splits)

theorem download_dataset_no_id_witness:
  "download_dataset (world_with (\<lambda>q. Inr (reply 200 (Inl (JSONDecodeError ''binary'')) [Inr ''abc''])))
       None ''parquet''
     = (None, world_with (\<lambda>q. Inr (reply 200 (Inl (JSONDecodeError ''binary'')) [Inr ''abc''])))
   \<and> download_dataset (world_with (\<lambda>q. Inr (reply 200 (Inl (JSONDecodeError ''binary'')) [Inr ''abc''])))
       (Some []) ''original''
     = (None, world_with (\<lambda>q. Inr (reply 200 (Inl (JSONDecodeError ''binary'')) [Inr ''abc''])))"
  using download_dataset_no_id[of None "world_with (\<lambda>q. Inr (reply 200 (Inl (JSONDecodeError ''binary'')) [Inr ''abc'']))" "''parquet''"]
    download_dataset_no_id[of "Some []" "world_with (\<lambda>q. Inr (reply 200 (Inl (JSONDecodeError ''binary'')) [Inr ''abc'']))" "''original''"]
  by simp

end
